theory Spec2Isabelle
  imports Main "HOL-Library.Word"
begin

section \<open>The TCP / serial bridge (class TSPInstance)\<close>

text \<open>
  The module is a single-threaded, event-driven JavaScript class. Each method and each
  event callback is embedded as a function on an explicit instance state. Objects the
  class shares with the runtime (sockets, TCP servers, serial ports, timers) live in
  stores indexed by a handle, so that a reference dropped by \<open>delete\<close> does not make
  the object itself disappear.
\<close>

subsection \<open>Data\<close>

type_synonym bytes = "8 word list"

text \<open>
  The members of the host library's enumeration \<open>InstanceStatus\<close> that the class uses.
\<close>

datatype InstanceStatus = Ok | ConnectionFailure | Connecting | BadConfig | Disconnected

text \<open>
  The class also reads \<open>InstanceStatus.Error\<close>. The enumeration has no member of that
  name (its error member is \<open>UnknownError\<close>), so the expression is \<open>undefined\<close>: \<open>None\<close>.
\<close>

definition InstanceStatus_Error :: "InstanceStatus option" where
  "InstanceStatus_Error = None"

text \<open>An error object handed to a callback: the two properties the class reads.\<close>

record jserr =
  message :: string
  disconnected :: bool

text \<open>The user configuration, as far as the class reads it. A missing property is \<open>None\<close>.\<close>

record config =
  iport :: nat
  sport :: "string option"
  response :: bool
  maxresponse :: nat
  errormessage :: bytes

text \<open>One entry of the list that \<open>SerialPort.list()\<close> resolves to.\<close>

record portinfo =
  path :: "string option"
  comName :: "string option"
  locationId :: "string option"
  pnpId :: "string option"
  manufacturer :: "string option"

text \<open>One entry of \<open>this.foundPorts\<close>.\<close>

record found =
  fpath :: "string option"
  fmanufacturer :: string

text \<open>
  A client socket: \<open>written\<close> is the sequence of arguments of \<open>write\<close> calls,
  \<open>ended\<close> records a call of \<open>end()\<close>, \<open>listeners\<close> is false once
  \<open>removeAllListeners()\<close> has been called.
\<close>

record socket =
  remoteAddress :: string
  remotePort :: nat
  written :: "bytes list"
  ended :: bool
  listeners :: bool

text \<open>
  A \<open>net.Server\<close>: \<open>listening\<close> is the port given to \<open>listen\<close>, until \<open>close()\<close> is
  called. \<open>connections\<close> is what reading the property of that name gives: \<open>net.Server\<close>
  has no such property on the Node versions the host library runs on, so a server starts
  with \<open>None\<close> (\<open>undefined\<close>), and \<open>undefined > 0\<close> is false.
\<close>

record server =
  maxConnections :: "nat option"
  listening :: "nat option"
  connections :: "nat option"
  srv_listeners :: bool

text \<open>
  The life of a serial port: \<open>isOpen\<close> reads true in \<open>POpen\<close> only. \<open>close()\<close> leaves
  the port closing until the runtime delivers the \<open>close\<close> event.
\<close>

datatype portstate = PClosed | POpening | POpen | PClosing

text \<open>A \<open>SerialPort\<close> object; \<open>sp_written\<close> is the sequence of arguments of \<open>write\<close> calls.\<close>

record serialport =
  sp_path :: string
  sp_state :: portstate
  sp_listeners :: bool
  sp_written :: "bytes list"

text \<open>A pending timer: the scan interval, or a response timeout with its delay.\<close>

datatype timer = ScanInterval nat | ResponseTimeout nat

text \<open>
  Calls into the host. \<open>Report l m s\<close> stands for the two calls
  \<open>this.updateStatus(s, m); this.log(l, m)\<close> that \<open>doUpdateStatus\<close> makes back to back
  when it emits; the other constructors are single calls.
\<close>

datatype call =
    Report string string InstanceStatus
  | UpdateStatus "InstanceStatus option" "string option"
  | Log string string
  | SetVariableValues string
  | SetVariableDefinitions
  | SetActionDefinitions

record tsp =
  LOG_DELAY :: nat
  foundPorts :: "found list"
  tSockets :: "nat list option"
  sPortPath :: string
  isOpen :: bool
  IPPort :: nat
  config :: "config option"
  portScan :: "nat option"
  tServer :: "nat option"
  sPort :: "nat option"
  SERIAL_INTERVAL :: "nat option"
  isListening :: bool
  startedAt :: "nat option"
  lastStatus :: "string option"
  scanning :: bool
  clock :: nat
  timers :: "(nat \<times> timer) list"
  nextTimer :: nat
  socks :: "nat \<Rightarrow> socket"
  nextSock :: nat
  servers :: "nat \<Rightarrow> server"
  nextServer :: nat
  ports :: "nat \<Rightarrow> serialport"
  nextPort :: nat
  host :: "call list"

text \<open>
  The outcome of a callback: it returns, or a \<open>TypeError\<close> escapes from it (a property
  read on \<open>undefined\<close> or \<open>null\<close>); the state at the throw is kept.
\<close>

datatype outcome = Done tsp | Threw tsp

fun state_of :: "outcome \<Rightarrow> tsp" where
  "state_of (Done st) = st"
| "state_of (Threw st) = st"

fun and_then :: "outcome \<Rightarrow> (tsp \<Rightarrow> outcome) \<Rightarrow> outcome" where
  "and_then (Done st) f = f st"
| "and_then (Threw st) f = Threw st"

subsection \<open>Strings\<close>

definition truthy :: "string option \<Rightarrow> bool" where
  "truthy s = (case s of None \<Rightarrow> False | Some v \<Rightarrow> v \<noteq> [])"

definition str :: "string option \<Rightarrow> string" where
  "str s = (case s of None \<Rightarrow> ''undefined'' | Some v \<Rightarrow> v)"

definition digit :: "nat \<Rightarrow> char" where
  "digit n = (''0123456789abcdef'') ! n"

fun show_nat :: "nat \<Rightarrow> string" where
  "show_nat n = (if n < 10 then [digit n] else show_nat (n div 10) @ [digit (n mod 10)])"

declare show_nat.simps [simp del]

text \<open>\<open>toHex\<close> with its default delimiter, on the latin1 reading of a buffer.\<close>

definition toHex :: "bytes \<Rightarrow> string" where
  "toHex data = concat (map (\<lambda>b. [digit (unat b div 16), digit (unat b mod 16)]) data)"

fun join :: "string \<Rightarrow> string list \<Rightarrow> string" where
  "join d [] = []"
| "join d [x] = x"
| "join d (x # y # ys) = x @ d @ join d (y # ys)"

subsection \<open>Host and runtime primitives\<close>

definition log :: "string \<Rightarrow> string \<Rightarrow> tsp \<Rightarrow> tsp" where
  "log l m st = st\<lparr>host := host st @ [Log l m]\<rparr>"

definition updateStatus :: "InstanceStatus option \<Rightarrow> string option \<Rightarrow> tsp \<Rightarrow> tsp" where
  "updateStatus s m st = st\<lparr>host := host st @ [UpdateStatus s m]\<rparr>"

definition clearInterval :: "nat option \<Rightarrow> tsp \<Rightarrow> tsp" where
  "clearInterval h st =
     (case h of None \<Rightarrow> st
      | Some i \<Rightarrow> st\<lparr>timers := filter (\<lambda>e. fst e \<noteq> i) (timers st)\<rparr>)"

text \<open>\<open>setInterval\<close> and \<open>setTimeout\<close>: the new handle is \<open>nextTimer\<close> of the state before.\<close>

definition setTimer :: "timer \<Rightarrow> tsp \<Rightarrow> tsp" where
  "setTimer t st = st\<lparr>timers := timers st @ [(nextTimer st, t)], nextTimer := Suc (nextTimer st)\<rparr>"

definition sock_end :: "nat \<Rightarrow> tsp \<Rightarrow> tsp" where
  "sock_end i st = st\<lparr>socks := (socks st)(i := (socks st i)\<lparr>ended := True\<rparr>)\<rparr>"

definition sock_removeAllListeners :: "nat \<Rightarrow> tsp \<Rightarrow> tsp" where
  "sock_removeAllListeners i st = st\<lparr>socks := (socks st)(i := (socks st i)\<lparr>listeners := False\<rparr>)\<rparr>"

definition sock_write :: "bytes \<Rightarrow> nat \<Rightarrow> tsp \<Rightarrow> tsp" where
  "sock_write d i st = st\<lparr>socks := (socks st)(i := (socks st i)\<lparr>written := written (socks st i) @ [d]\<rparr>)\<rparr>"

definition server_close :: "nat \<Rightarrow> tsp \<Rightarrow> tsp" where
  "server_close t st = st\<lparr>servers := (servers st)(t := (servers st t)\<lparr>listening := None\<rparr>)\<rparr>"

definition server_removeAllListeners :: "nat \<Rightarrow> tsp \<Rightarrow> tsp" where
  "server_removeAllListeners t st =
     st\<lparr>servers := (servers st)(t := (servers st t)\<lparr>srv_listeners := False\<rparr>)\<rparr>"

definition port_isOpen :: "tsp \<Rightarrow> nat \<Rightarrow> bool" where
  "port_isOpen st p = (sp_state (ports st p) = POpen)"

definition port_close :: "nat \<Rightarrow> tsp \<Rightarrow> tsp" where
  "port_close p st = st\<lparr>ports := (ports st)(p := (ports st p)\<lparr>sp_state := PClosing\<rparr>)\<rparr>"

definition port_removeAllListeners :: "nat \<Rightarrow> tsp \<Rightarrow> tsp" where
  "port_removeAllListeners p st =
     st\<lparr>ports := (ports st)(p := (ports st p)\<lparr>sp_listeners := False\<rparr>)\<rparr>"

definition port_write :: "bytes \<Rightarrow> nat \<Rightarrow> tsp \<Rightarrow> tsp" where
  "port_write d p st =
     st\<lparr>ports := (ports st)(p := (ports st p)\<lparr>sp_written := sp_written (ports st p) @ [d]\<rparr>)\<rparr>"

subsection \<open>Array helpers\<close>

fun findIndex :: "('a \<Rightarrow> bool) \<Rightarrow> 'a list \<Rightarrow> int" where
  "findIndex P [] = -1"
| "findIndex P (x # xs) =
     (if P x then 0 else (let i = findIndex P xs in if i < 0 then -1 else i + 1))"

definition indexOf :: "'a list \<Rightarrow> 'a \<Rightarrow> int" where
  "indexOf xs x = findIndex (\<lambda>y. y = x) xs"

text \<open>\<open>xs.splice(start, 1)\<close>: a negative start counts from the end of the array.\<close>

definition splice1 :: "int \<Rightarrow> 'a list \<Rightarrow> 'a list" where
  "splice1 start xs =
     (let n = int (length xs);
          k = (if start < 0 then max (n + start) 0 else min start n)
      in take (nat k) xs @ drop (Suc (nat k)) xs)"

subsection \<open>Teardown\<close>

definition clear_portScan :: "tsp \<Rightarrow> tsp" where
  "clear_portScan st =
     (case portScan st of None \<Rightarrow> st
      | Some h \<Rightarrow> (clearInterval (Some h) st)\<lparr>portScan := None\<rparr>)"

definition clear_tSockets :: "tsp \<Rightarrow> tsp" where
  "clear_tSockets st =
     (case tSockets st of None \<Rightarrow> st
      | Some ss \<Rightarrow>
          (fold (\<lambda>i s. sock_removeAllListeners i (sock_end i s)) ss st)\<lparr>tSockets := None\<rparr>)"

definition clear_tServer :: "tsp \<Rightarrow> tsp" where
  "clear_tServer st =
     (case tServer st of None \<Rightarrow> st
      | Some t \<Rightarrow>
          (server_removeAllListeners t
             (if (case connections (servers st t) of None \<Rightarrow> False | Some n \<Rightarrow> n > 0)
              then server_close t st else st))
          \<lparr>tServer := None\<rparr>)"

definition clear_sPort :: "tsp \<Rightarrow> tsp" where
  "clear_sPort st =
     (case sPort st of None \<Rightarrow> st
      | Some p \<Rightarrow>
          (let st1 = port_removeAllListeners p st
           in (if port_isOpen st1 p then port_close p st1 else st1)\<lparr>sPort := None\<rparr>))"

definition clearAll :: "tsp \<Rightarrow> tsp" where
  "clearAll st = clear_sPort (clear_tServer (clear_tSockets (clear_portScan st)))"

definition destroy :: "tsp \<Rightarrow> tsp" where
  "destroy st =
     (let st1 = clearAll st;
          st2 = clearInterval (SERIAL_INTERVAL st1) st1
      in log ''debug'' ''Destroyed'' (updateStatus (Some Disconnected) (Some ''Disabled'') st2))"

subsection \<open>Status monitor\<close>

text \<open>
  The rule chain of \<open>doUpdateStatus\<close>: the level, message and status it computes, or
  \<open>None\<close> where \<open>s != null\<close> is false and nothing can be emitted. That is so where it
  sets \<open>s = null\<close>, and in the error rule, where it sets \<open>s = InstanceStatus.Error\<close>,
  which is \<open>undefined\<close>. \<open>this.foundPorts\<close> is always an array, and an array is truthy,
  so the disjunct \<open>!this.foundPorts\<close> is \<open>False\<close>.
\<close>

definition status_rule :: "jserr option \<Rightarrow> tsp \<Rightarrow> (string \<times> string \<times> InstanceStatus) option" where
  "status_rule err st =
     (if isListening st then
        Some (''info'', ''Listening on TCP port '' @ show_nat (IPPort st), Ok)
      else if err \<noteq> None then
        (case InstanceStatus_Error of
           None \<Rightarrow> None
         | Some s \<Rightarrow>
             Some (''error'', ''Error: '' @ (case err of Some e \<Rightarrow> message e | None \<Rightarrow> []), s))
      else if False \<or> (case startedAt st of None \<Rightarrow> False | Some t \<Rightarrow> t + LOG_DELAY st > clock st) then
        None
      else if length (foundPorts st) = 0 then
        Some (''error'', ''No serial ports detected'', ConnectionFailure)
      else if sPort st \<noteq> None \<and> sPortPath st \<noteq> ''none'' then
        Some (''info'', ''Connecting to '' @ sPortPath st, Connecting)
      else
        Some (''error'', ''No serial port configured'', BadConfig))"

text \<open>
  The parameter \<open>sv\<close> gives the string value of each member of \<open>InstanceStatus\<close>; the
  enumeration is declared by the host library.
\<close>

definition doUpdateStatus :: "(InstanceStatus \<Rightarrow> string) \<Rightarrow> jserr option \<Rightarrow> tsp \<Rightarrow> tsp" where
  "doUpdateStatus sv err st =
     (case status_rule err st of
        None \<Rightarrow> st
      | Some (l, m, s) \<Rightarrow>
          if Some (l @ m @ sv s) \<noteq> lastStatus st
          then st\<lparr>host := host st @ [Report l m s], lastStatus := Some (l @ m @ sv s)\<rparr>
          else st)"

subsection \<open>Serial port and TCP server\<close>

text \<open>
  What a caught \<open>TypeError\<close> contributes to a log line; the engine's wording after the
  name is left out.
\<close>

definition typeError :: string where
  "typeError = ''TypeError''"

definition updateVariables :: "tsp \<Rightarrow> outcome" where
  "updateVariables st =
     (case tSockets st of
        None \<Rightarrow> Threw st
      | Some ss \<Rightarrow>
          Done (st\<lparr>host := host st @
            [SetVariableValues
               (if length ss > 0
                then join [CHR 0x0A]
                       (map (\<lambda>s. remoteAddress (socks st s) @ '':'' @ show_nat (remotePort (socks st s))) ss)
                else ''Not connected'')]\<rparr>))"

text \<open>The \<open>close\<close> callback of the serial port.\<close>

definition port_on_close :: "(InstanceStatus \<Rightarrow> string) \<Rightarrow> jserr option \<Rightarrow> tsp \<Rightarrow> outcome" where
  "port_on_close sv err st =
     (let st1 = doUpdateStatus sv err st
      in case err of
           None \<Rightarrow> Threw st1
         | Some e \<Rightarrow>
             if disconnected e then
               (case tSockets st1 of
                  None \<Rightarrow> Threw st1
                | Some ss \<Rightarrow>
                    (let st2 = fold sock_end ss st1
                     in case tServer st2 of
                          None \<Rightarrow> Threw st2
                        | Some t \<Rightarrow> Done ((server_close t st2)\<lparr>isListening := False\<rparr>)))
             else Done st1)"

text \<open>The \<open>data\<close> callback of the serial port.\<close>

definition port_on_data :: "bytes \<Rightarrow> tsp \<Rightarrow> outcome" where
  "port_on_data d st =
     (case tSockets st of
        None \<Rightarrow> Threw st
      | Some ss \<Rightarrow>
          (let st1 = (if length ss > 0
                      then fold (sock_write d) ss (log ''debug'' (''COM> '' @ toHex (d @ [0x20])) st)
                      else st)
           in Done (clearInterval (SERIAL_INTERVAL st1) st1)))"

text \<open>
  \<open>init_serial\<close>: \<open>new SerialPort\<close> with \<open>autoOpen: false\<close>, the four callbacks, then
  \<open>open()\<close>. The options other than the path go to the library unread by the class.
\<close>

definition init_serial :: "(InstanceStatus \<Rightarrow> string) \<Rightarrow> tsp \<Rightarrow> outcome" where
  "init_serial sv st =
     (if sPortPath st = [] \<or> sPortPath st = ''none'' then Done st
      else case config st of
             None \<Rightarrow> Threw st
           | Some c \<Rightarrow>
               (let p = nextPort st;
                    st1 = st\<lparr>ports := (ports st)(p :=
                               \<lparr>sp_path = sPortPath st, sp_state = POpening,
                                sp_listeners = True, sp_written = []\<rparr>),
                             nextPort := Suc p,
                             sPort := Some p\<rparr>
                in Done (doUpdateStatus sv None st1)))"

text \<open>\<open>init_tcp\<close>, the \<open>open\<close> callback of the serial port.\<close>

definition init_tcp :: "(InstanceStatus \<Rightarrow> string) \<Rightarrow> tsp \<Rightarrow> tsp" where
  "init_tcp sv st =
     (let t = nextServer st;
          st1 = st\<lparr>servers := (servers st)(t :=
                     \<lparr>maxConnections = Some 4, listening = Some (IPPort st),
                      connections = None, srv_listeners = True\<rparr>),
                   nextServer := Suc t,
                   tServer := Some t,
                   isListening := True\<rparr>
      in doUpdateStatus sv None st1)"

text \<open>The \<open>connection\<close> callback of the server, for the new socket \<open>s\<close>.\<close>

definition on_connection :: "nat \<Rightarrow> tsp \<Rightarrow> outcome" where
  "on_connection s st =
     (case tSockets st of
        None \<Rightarrow> Threw st
      | Some ss \<Rightarrow>
          and_then (updateVariables (st\<lparr>tSockets := Some (ss @ [s])\<rparr>))
            (\<lambda>st1. Done (st1\<lparr>socks := (socks st1)(s := (socks st1 s)\<lparr>listeners := True\<rparr>)\<rparr>)))"

text \<open>The \<open>close\<close> callback of socket \<open>s\<close>.\<close>

definition sock_on_close :: "nat \<Rightarrow> tsp \<Rightarrow> outcome" where
  "sock_on_close s st =
     (case tSockets st of
        None \<Rightarrow> Threw st
      | Some ss \<Rightarrow>
          (let ss' = splice1 (indexOf ss s) ss
           in updateVariables (st\<lparr>tSockets := Some ss', isListening := (length ss' > 0)\<rparr>)))"

text \<open>The \<open>data\<close> callback of a socket.\<close>

definition sock_on_data :: "bytes \<Rightarrow> tsp \<Rightarrow> outcome" where
  "sock_on_data d st =
     (let st1 = log ''debug'' (''TCP: '' @ toHex (d @ [0x20])) st
      in case sPort st1 of
           None \<Rightarrow> Threw st1
         | Some p \<Rightarrow>
             (let st2 = port_write d p st1
              in case config st2 of
                   None \<Rightarrow> Threw st2
                 | Some c \<Rightarrow>
                     if response c
                     then Done ((setTimer (ResponseTimeout (maxresponse c)) st2)
                                  \<lparr>SERIAL_INTERVAL := Some (nextTimer st2)\<rparr>)
                     else Done st2))"

definition sendError :: "tsp \<Rightarrow> outcome" where
  "sendError st =
     (let st1 = updateStatus InstanceStatus_Error None st
      in case config st1 of
           None \<Rightarrow> Threw st1
         | Some c \<Rightarrow>
             (let st2 = log ''error''
                          (''Error: No response received via Serial connection in the max allotted time of ''
                             @ show_nat (maxresponse c) @ ''ms'') st1;
                  st3 = (case tSockets st2 of
                           None \<Rightarrow> log ''debug'' (''Unable to send error message to sockets: '' @ typeError) st2
                         | Some ss \<Rightarrow> fold (sock_write (errormessage c)) ss st2)
              in Done (clearInterval (SERIAL_INTERVAL st3) st3)))"

subsection \<open>Port discovery\<close>

text \<open>
  \<open>findPorts\<close> up to the call of \<open>SerialPort.list()\<close>; the two callbacks of the promise
  follow, run later by the event loop.
\<close>

definition findPorts :: "tsp \<Rightarrow> tsp" where
  "findPorts st = (if scanning st then st else st\<lparr>scanning := True, foundPorts := []\<rparr>)"

definition found_of :: "portinfo \<Rightarrow> found" where
  "found_of p =
     \<lparr>fpath = (if truthy (path p) then path p else comName p),
      fmanufacturer = (case manufacturer p of
                         None \<Rightarrow> ''Internal''
                       | Some m \<Rightarrow> if m \<noteq> [] then m else ''Internal'')\<rparr>"

definition findPorts_resolved :: "(InstanceStatus \<Rightarrow> string) \<Rightarrow> portinfo list \<Rightarrow> tsp \<Rightarrow> tsp" where
  "findPorts_resolved sv ps st =
     (let fs = foundPorts st @
                 map found_of (filter (\<lambda>p. truthy (locationId p) \<or> truthy (pnpId p)) ps);
          fs' = (if length fs > 0
                 then \<lparr>fpath = Some ''none'', fmanufacturer = ''Not configured''\<rparr> # fs
                 else fs)
      in (doUpdateStatus sv None (st\<lparr>foundPorts := fs'\<rparr>))\<lparr>scanning := False\<rparr>)"

text \<open>The rejection callback; \<open>err\<close> is the error converted to a string.\<close>

definition findPorts_rejected :: "string \<Rightarrow> tsp \<Rightarrow> tsp" where
  "findPorts_rejected err st = (log ''debug'' (''SerialPort.list: '' @ err) st)\<lparr>scanning := False\<rparr>"

definition scanForPorts :: "(InstanceStatus \<Rightarrow> string) \<Rightarrow> tsp \<Rightarrow> outcome" where
  "scanForPorts sv st =
     (let setSerial = (length (foundPorts st) > 0 \<and> sPort st = None);
          setSerial = (setSerial \<or> (case sPort st of None \<Rightarrow> False | Some p \<Rightarrow> \<not> port_isOpen st p));
          st1 = (if (case sPort st of None \<Rightarrow> True | Some p \<Rightarrow> \<not> port_isOpen st p)
                 then findPorts (doUpdateStatus sv None st)
                 else st)
      in if setSerial then init_serial sv st1 else Done st1)"

subsection \<open>Configuration\<close>

definition init_actions :: "tsp \<Rightarrow> tsp" where
  "init_actions st = st\<lparr>host := host st @ [SetActionDefinitions]\<rparr>"

definition init_variables :: "tsp \<Rightarrow> tsp" where
  "init_variables st = st\<lparr>host := host st @ [SetVariableDefinitions]\<rparr>"

definition applyConfig :: "(InstanceStatus \<Rightarrow> string) \<Rightarrow> config \<Rightarrow> tsp \<Rightarrow> outcome" where
  "applyConfig sv c st =
     (let st1 = clearAll (st\<lparr>config := Some c\<rparr>);
          st2 = st1\<lparr>isListening := False,
                    IPPort := (if iport c \<noteq> 0 then iport c else 32100),
                    sPortPath := (case sport c of
                                    None \<Rightarrow> ''none''
                                  | Some v \<Rightarrow> if v \<noteq> [] then v else ''none''),
                    tSockets := Some [],
                    isOpen := False,
                    startedAt := Some (clock st1)\<rparr>;
          st3 = (setTimer (ScanInterval 5000) st2)\<lparr>portScan := Some (nextTimer st2)\<rparr>
      in and_then (scanForPorts sv st3)
           (\<lambda>st4. updateVariables (init_variables (init_actions st4))))"

subsection \<open>Actions\<close>

text \<open>The block both actions run when \<open>self.sPort\<close> is set.\<close>

definition close_port_first :: "config \<Rightarrow> tsp \<Rightarrow> tsp" where
  "close_port_first c st =
     (case sPort st of
        None \<Rightarrow> st
      | Some p \<Rightarrow>
          (let st1 = log ''info'' (''First closing already open port: '' @ str (sport c)) st;
               st2 = port_removeAllListeners p st1
           in (if port_isOpen st2 p then port_close p st2 else st2)\<lparr>sPort := None\<rparr>))"

definition select_port :: "(InstanceStatus \<Rightarrow> string) \<Rightarrow> string \<Rightarrow> config \<Rightarrow> nat \<Rightarrow> tsp \<Rightarrow> outcome" where
  "select_port sv which c index st =
     (let st1 = log ''info'' (''Selecting '' @ which @ '' Serial port in list: ''
                               @ str (fpath (foundPorts st ! index))) st;
          st2 = close_port_first c st1;
          c' = c\<lparr>sport := fpath (foundPorts st2 ! index)\<rparr>
      in applyConfig sv c' (st2\<lparr>config := Some c'\<rparr>))"

definition previousSPort :: "(InstanceStatus \<Rightarrow> string) \<Rightarrow> tsp \<Rightarrow> tsp" where
  "previousSPort sv st =
     (let caught = log ''debug'' (''Error Selecting previous Serial Port in List: '' @ typeError)
      in case config st of
           None \<Rightarrow> caught st
         | Some c \<Rightarrow>
             (let index = findIndex (\<lambda>port. fpath port = sport c) (foundPorts st) - 1
              in if index > 0 then
                   (case select_port sv ''previous'' c (nat index) st of
                      Done st' \<Rightarrow> st'
                    | Threw st' \<Rightarrow> caught st')
                 else log ''info''
                        ''Cannot select previous Serial port in list: Already on the first port in the list.''
                        st))"

definition nextSPort :: "(InstanceStatus \<Rightarrow> string) \<Rightarrow> tsp \<Rightarrow> tsp" where
  "nextSPort sv st =
     (let caught = log ''debug'' (''Error Selecting next Serial Port in List: '' @ typeError)
      in case config st of
           None \<Rightarrow> caught st
         | Some c \<Rightarrow>
             (let index = findIndex (\<lambda>port. fpath port = sport c) (foundPorts st) + 1
              in if index < int (length (foundPorts st)) then
                   (case select_port sv ''next'' c (nat index) st of
                      Done st' \<Rightarrow> st'
                    | Threw st' \<Rightarrow> caught st')
                 else log ''info''
                        ''Cannot select next Serial port in list: Already on the last port in the list.''
                        st))"

subsection \<open>The event loop\<close>

text \<open>The state the constructor leaves, at a given reading of the clock.\<close>

definition constructor :: "nat \<Rightarrow> tsp" where
  "constructor now =
     \<lparr>LOG_DELAY = 10000, foundPorts = [], tSockets = Some [], sPortPath = ''none'',
      isOpen = False, IPPort = 32100, config = None, portScan = None, tServer = None,
      sPort = None, SERIAL_INTERVAL = None, isListening = False, startedAt = None,
      lastStatus = None, scanning = False, clock = now, timers = [], nextTimer = 0,
      socks = (\<lambda>_. \<lparr>remoteAddress = [], remotePort = 0, written = [], ended = False,
                     listeners = False\<rparr>),
      nextSock = 0,
      servers = (\<lambda>_. \<lparr>maxConnections = None, listening = None, connections = None,
                       srv_listeners = False\<rparr>),
      nextServer = 0,
      ports = (\<lambda>_. \<lparr>sp_path = [], sp_state = PClosed, sp_listeners = False, sp_written = []\<rparr>),
      nextPort = 0,
      host = []\<rparr>"

text \<open>
  What the host and the runtime can make happen: calls of the public methods, the passing
  of time, a timer firing, the two results of \<open>SerialPort.list()\<close>, and the events of the
  serial ports, servers and sockets.
\<close>

datatype event =
    Init config
  | ConfigUpdated config
  | Destroy
  | ActionPrevious
  | ActionNext
  | Elapse nat
  | TimerFires nat
  | ListResolved "portinfo list"
  | ListRejected string
  | PortOpen nat
  | PortError nat jserr
  | PortClose nat "jserr option"
  | PortData nat bytes
  | ServerError nat jserr
  | Connection nat string nat
  | SockErr nat jserr
  | SockClose nat
  | SockData nat bytes

text \<open>
  One turn of the event loop. A callback runs only while its listener is attached; a
  timer's callback runs only while the timer is pending, and a timeout is pending no
  longer once it fires.
\<close>

fun step :: "(InstanceStatus \<Rightarrow> string) \<Rightarrow> event \<Rightarrow> tsp \<Rightarrow> outcome" where
  "step sv (Init c) st = applyConfig sv c st"
| "step sv (ConfigUpdated c) st = applyConfig sv c (st\<lparr>config := Some c\<rparr>)"
| "step sv Destroy st = Done (destroy st)"
| "step sv ActionPrevious st = Done (previousSPort sv st)"
| "step sv ActionNext st = Done (nextSPort sv st)"
| "step sv (Elapse n) st = Done (st\<lparr>clock := clock st + n\<rparr>)"
| "step sv (TimerFires h) st =
     (case map_of (timers st) h of
        None \<Rightarrow> Done st
      | Some (ScanInterval _) \<Rightarrow> scanForPorts sv st
      | Some (ResponseTimeout _) \<Rightarrow>
          sendError (st\<lparr>timers := filter (\<lambda>e. fst e \<noteq> h) (timers st)\<rparr>))"
| "step sv (ListResolved ps) st = Done (findPorts_resolved sv ps st)"
| "step sv (ListRejected err) st = Done (findPorts_rejected err st)"
| "step sv (PortOpen p) st =
     (if sp_state (ports st p) = POpening then
        (let st1 = st\<lparr>ports := (ports st)(p := (ports st p)\<lparr>sp_state := POpen\<rparr>)\<rparr>
         in Done (if sp_listeners (ports st p) then init_tcp sv st1 else st1))
      else Done st)"
| "step sv (PortError p e) st =
     (let st1 = (if sp_state (ports st p) = POpening
                 then st\<lparr>ports := (ports st)(p := (ports st p)\<lparr>sp_state := PClosed\<rparr>)\<rparr>
                 else st)
      in Done (if sp_listeners (ports st p) then doUpdateStatus sv (Some e) st1 else st1))"
| "step sv (PortClose p err) st =
     (if sp_state (ports st p) = POpen \<or> sp_state (ports st p) = PClosing then
        (let st1 = st\<lparr>ports := (ports st)(p := (ports st p)\<lparr>sp_state := PClosed\<rparr>)\<rparr>
         in if sp_listeners (ports st p) then port_on_close sv err st1 else Done st1)
      else Done st)"
| "step sv (PortData p d) st =
     (if sp_state (ports st p) = POpen \<and> sp_listeners (ports st p)
      then port_on_data d st else Done st)"
| "step sv (ServerError t e) st =
     Done (if srv_listeners (servers st t) then doUpdateStatus sv (Some e) st else st)"
| "step sv (Connection t addr prt) st =
     (if listening (servers st t) \<noteq> None \<and> srv_listeners (servers st t) then
        (let s = nextSock st;
             st1 = st\<lparr>socks := (socks st)(s :=
                        \<lparr>remoteAddress = addr, remotePort = prt, written = [], ended = False,
                         listeners = False\<rparr>),
                      nextSock := Suc s\<rparr>
         in on_connection s st1)
      else Done st)"
| "step sv (SockErr s e) st =
     Done (if listeners (socks st s) then doUpdateStatus sv (Some e) st else st)"
| "step sv (SockClose s) st =
     (if listeners (socks st s) then sock_on_close s st else Done st)"
| "step sv (SockData s d) st =
     (if listeners (socks st s) then sock_on_data d st else Done st)"

text \<open>A run of the event loop; an escaping exception ends it.\<close>

fun run :: "(InstanceStatus \<Rightarrow> string) \<Rightarrow> event list \<Rightarrow> tsp \<Rightarrow> outcome" where
  "run sv [] st = Done st"
| "run sv (e # es) st = and_then (step sv e st) (run sv es)"

subsection \<open>A sample session\<close>

text \<open>
  Concrete values for the examples below: string values for the status members, a
  configuration with the response watchdog on, one hardware port, and the events that
  bring the bridge up with two clients connected.
\<close>

definition sv0 :: "InstanceStatus \<Rightarrow> string" where
  "sv0 s = (case s of Ok \<Rightarrow> ''ok''
            | ConnectionFailure \<Rightarrow> ''connection_failure'' | Connecting \<Rightarrow> ''connecting''
            | BadConfig \<Rightarrow> ''bad_config'' | Disconnected \<Rightarrow> ''disconnected'')"

definition cfg0 :: config where
  "cfg0 = \<lparr>iport = 9000, sport = Some ''COM5'', response = True, maxresponse = 500,
           errormessage = [0x45, 0x52, 0x52]\<rparr>"

definition com5 :: portinfo where
  "com5 = \<lparr>path = Some ''COM5'', comName = None, locationId = Some ''1-1'', pnpId = None,
           manufacturer = Some ''FTDI''\<rparr>"

definition boot :: "event list" where
  "boot = [Init cfg0, ListResolved [com5], Elapse 5000, TimerFires 0, PortOpen 0,
           Connection 0 ''10.0.0.2'' 5000, Connection 0 ''10.0.0.3'' 5001]"

definition relaying :: tsp where
  "relaying = state_of (run sv0 boot (constructor 0))"

text \<open>The session just after its first enumeration has found the port.\<close>

definition scanned :: tsp where
  "scanned = state_of (run sv0 [Init cfg0, ListResolved [com5]] (constructor 0))"

text \<open>The session with the response timeout armed by one client write.\<close>

definition armed :: tsp where
  "armed = state_of (run sv0 [SockData 0 [0x01]] relaying)"


text \<open>The session after the first client has disconnected: one client is left.\<close>

definition one_client :: tsp where
  "one_client = state_of (run sv0 [SockClose 0] relaying)"

text \<open>
  The session after a client write, which arms the response timeout, and the
  disconnection of both clients.
\<close>

definition quiet :: tsp where
  "quiet = state_of (run sv0 [SockData 0 [0x01], SockClose 0, SockClose 1] relaying)"

subsection \<open>The status reports seen by the host\<close>





subsection \<open>The active list\<close>

text \<open>
  The invariant of \<open>tSockets\<close>: while the array exists it holds each socket once, and only
  sockets the runtime has created.
\<close>

fun active_ok :: "nat list option \<Rightarrow> nat \<Rightarrow> bool" where
  "active_ok None n = True"
| "active_ok (Some ss) n = (distinct ss \<and> list_all (\<lambda>s. s < n) ss)"

definition socks_ok :: "tsp \<Rightarrow> bool" where
  "socks_ok st = active_ok (tSockets st) (nextSock st)"

section \<open>Properties\<close>

subsection \<open>Loops over the client sockets\<close>

lemma fold_sock_write:
  "fold (sock_write d) ss st =
     st\<lparr>socks := (\<lambda>s. (socks st s)\<lparr>written := written (socks st s) @ replicate (count_list ss s) d\<rparr>)\<rparr>"
proof (induction ss arbitrary: st)
  case Nil
  show ?case by simp
next
  case (Cons a ss)
  have "fold (sock_write d) (a # ss) st = fold (sock_write d) ss (sock_write d a st)"
    by simp
  also have "\<dots> = (sock_write d a st)\<lparr>socks := (\<lambda>s. (socks (sock_write d a st) s)
      \<lparr>written := written (socks (sock_write d a st) s) @ replicate (count_list ss s) d\<rparr>)\<rparr>"
    by (rule Cons.IH)
  also have "\<dots> = st\<lparr>socks := (\<lambda>s. (socks st s)
      \<lparr>written := written (socks st s) @ replicate (count_list (a # ss) s) d\<rparr>)\<rparr>"
    by (simp add: sock_write_def fun_eq_iff replicate_app_Cons_same)
  finally show ?case .
qed

lemma fold_sock_end:
  "fold sock_end ss st =
     st\<lparr>socks := (\<lambda>s. if s \<in> set ss then (socks st s)\<lparr>ended := True\<rparr> else socks st s)\<rparr>"
proof (induction ss arbitrary: st)
  case Nil
  show ?case by simp
next
  case (Cons a ss)
  have "fold sock_end (a # ss) st = fold sock_end ss (sock_end a st)"
    by simp
  also have "\<dots> = (sock_end a st)\<lparr>socks := (\<lambda>s. if s \<in> set ss
      then (socks (sock_end a st) s)\<lparr>ended := True\<rparr> else socks (sock_end a st) s)\<rparr>"
    by (rule Cons.IH)
  also have "\<dots> = st\<lparr>socks := (\<lambda>s. if s \<in> set (a # ss)
      then (socks st s)\<lparr>ended := True\<rparr> else socks st s)\<rparr>"
    by (simp add: sock_end_def fun_eq_iff)
  finally show ?case .
qed

lemma fold_sock_shutdown:
  "fold (\<lambda>i s. sock_removeAllListeners i (sock_end i s)) ss st =
     st\<lparr>socks := (\<lambda>s. if s \<in> set ss then (socks st s)\<lparr>ended := True, listeners := False\<rparr>
                       else socks st s)\<rparr>"
proof (induction ss arbitrary: st)
  case Nil
  show ?case by simp
next
  case (Cons a ss)
  let ?f = "\<lambda>i s. sock_removeAllListeners i (sock_end i s)"
  have "fold ?f (a # ss) st = fold ?f ss (?f a st)"
    by simp
  also have "\<dots> = (?f a st)\<lparr>socks := (\<lambda>s. if s \<in> set ss
      then (socks (?f a st) s)\<lparr>ended := True, listeners := False\<rparr>
      else socks (?f a st) s)\<rparr>"
    by (rule Cons.IH)
  also have "\<dots> = st\<lparr>socks := (\<lambda>s. if s \<in> set (a # ss)
      then (socks st s)\<lparr>ended := True, listeners := False\<rparr> else socks st s)\<rparr>"
    by (simp add: sock_end_def sock_removeAllListeners_def fun_eq_iff)
  finally show ?case .
qed

subsection \<open>The sample session\<close>

lemmas sample_defs = constructor_def cfg0_def com5_def sv0_def boot_def relaying_def

lemmas method_defs = applyConfig_def clearAll_def clear_portScan_def
  clear_tSockets_def clear_tServer_def clear_sPort_def setTimer_def scanForPorts_def
  doUpdateStatus_def status_rule_def findPorts_def init_serial_def init_actions_def
  init_variables_def updateVariables_def findPorts_resolved_def findPorts_rejected_def
  found_of_def truthy_def init_tcp_def on_connection_def sock_on_data_def sock_on_close_def
  port_on_data_def port_on_close_def sendError_def destroy_def
  log_def updateStatus_def port_write_def sock_write_def sock_end_def
  sock_removeAllListeners_def server_close_def server_removeAllListeners_def
  port_close_def port_removeAllListeners_def clearInterval_def toHex_def Let_def
  port_isOpen_def digit_def indexOf_def splice1_def InstanceStatus_Error_def

lemma relaying_refs:
  "sPort relaying = Some 0" "config relaying = Some cfg0" "tSockets relaying = Some [0, 1]"
  "tServer relaying = Some 0" "isListening relaying" "SERIAL_INTERVAL relaying = None"
  "timers relaying = [(0, ScanInterval 5000)]" "nextTimer relaying = 1"
  "portScan relaying = Some 0"
  by (simp_all add: sample_defs method_defs)

lemma relaying_objects:
  "listeners (socks relaying 0)" "listeners (socks relaying 1)"
  "written (socks relaying 0) = []" "written (socks relaying 1) = []"
  "\<not> ended (socks relaying 0)" "\<not> ended (socks relaying 1)"
  "sp_state (ports relaying 0) = POpen" "sp_listeners (ports relaying 0)"
  "sp_written (ports relaying 0) = []"
  "listening (servers relaying 0) = Some 9000" "srv_listeners (servers relaying 0)"
  "connections (servers relaying 0) = None"
  by (simp_all add: sample_defs method_defs)

lemma armed_refs:
  "map_of (timers armed) 1 = Some (ResponseTimeout 500)" "config armed = Some cfg0"
  "tSockets armed = Some [0, 1]" "sPort armed = Some 0" "tServer armed = Some 0"
  "sp_state (ports armed 0) = POpen" "isListening armed"
  "written (socks armed 0) = []" "written (socks armed 1) = []"
  "host armed = host relaying @ [Log ''debug'' ''TCP: 0120'']"
  by (simp_all add: armed_def sample_defs method_defs)

subsection \<open>Client data\<close>

lemma sock_on_data_Done:
  assumes "sPort st = Some p" and "config st = Some c"
  shows "\<exists>st'. sock_on_data d st = Done st' \<and> sPort st' = Some p \<and> config st' = Some c
           \<and> socks st' = socks st
           \<and> ports st' = (ports st)(p := (ports st p)\<lparr>sp_written := sp_written (ports st p) @ [d]\<rparr>)"
  using assms by (simp add: sock_on_data_def log_def port_write_def setTimer_def Let_def)

text \<open>
  C1. While the relay runs (the serial port object and the configuration are set), a
  sequence of data events from clients, in any interleaving of clients, returns normally;
  the serial port is written exactly the received buffers, in the order received, and no
  socket is written anything: the socket store is unchanged.
\<close>

theorem client_data_goes_to_serial_only:
  assumes "sPort st = Some p" and "config st = Some c"
    and "\<forall>x\<in>set xs. listeners (socks st (fst x))"
  shows "\<exists>st'. run sv (map (\<lambda>x. SockData (fst x) (snd x)) xs) st = Done st'
           \<and> sp_written (ports st' p) = sp_written (ports st p) @ map snd xs
           \<and> socks st' = socks st"
  using assms
proof (induction xs arbitrary: st)
  case Nil
  show ?case by simp
next
  case (Cons x xs)
  obtain st1 where s1: "sock_on_data (snd x) st = Done st1" "sPort st1 = Some p"
      "config st1 = Some c" "socks st1 = socks st"
      "ports st1 = (ports st)(p := (ports st p)\<lparr>sp_written := sp_written (ports st p) @ [snd x]\<rparr>)"
    using sock_on_data_Done [OF Cons.prems(1) Cons.prems(2)] by blast
  have "\<forall>y\<in>set xs. listeners (socks st1 (fst y))"
    using Cons.prems(3) s1(4) by simp
  from Cons.IH [OF s1(2) s1(3) this]
  obtain st' where r: "run sv (map (\<lambda>x. SockData (fst x) (snd x)) xs) st1 = Done st'"
      "sp_written (ports st' p) = sp_written (ports st1 p) @ map snd xs"
      "socks st' = socks st1"
    by blast
  have "listeners (socks st (fst x))" using Cons.prems(3) by simp
  then have "run sv (map (\<lambda>x. SockData (fst x) (snd x)) (x # xs)) st = Done st'"
    using s1(1) r(1) by simp
  then show ?case using r s1 by simp
qed

theorem client_data_goes_to_serial_only_witness:
  "sPort relaying = Some 0 \<and> config relaying = Some cfg0
   \<and> listeners (socks relaying 0) \<and> listeners (socks relaying 1)
   \<and> (\<exists>st'. run sv0 [SockData 0 [0xFF], SockData 1 [0x01], SockData 0 [0x02]] relaying = Done st'
         \<and> sp_written (ports st' 0) = [[0xFF], [0x01], [0x02]]
         \<and> socks st' = socks relaying)"
  using client_data_goes_to_serial_only
          [of relaying 0 cfg0 "[(0, [0xFF]), (1, [0x01]), (0, [0x02])]" sv0]
        relaying_refs relaying_objects
  by simp

subsection \<open>Serial data\<close>

lemma count_list_distinct:
  "distinct ss \<Longrightarrow> count_list ss s = (if s \<in> set ss then 1 else 0)"
  by (induction ss) auto

lemma port_on_data_Done:
  assumes "tSockets st = Some ss" and "distinct ss"
  shows "\<exists>st'. port_on_data d st = Done st' \<and> tSockets st' = Some ss \<and> ports st' = ports st
           \<and> socks st' = (\<lambda>s. if s \<in> set ss
                                 then (socks st s)\<lparr>written := written (socks st s) @ [d]\<rparr>
                                 else socks st s)"
  using assms
  by (auto simp add: port_on_data_def fold_sock_write clearInterval_def log_def Let_def
      count_list_distinct fun_eq_iff split: option.splits)

text \<open>
  C2. Over a sequence of data events of the open serial port, every socket of the active
  list \<open>tSockets\<close> is written exactly the received buffers, unchanged and in the order
  received; the same sequence for every client. Sockets outside the list are not touched.
  The active list holds each socket once.
\<close>

theorem serial_data_goes_to_every_client:
  assumes "tSockets st = Some ss" and "distinct ss"
    and "sp_state (ports st p) = POpen" and "sp_listeners (ports st p)"
  shows "\<exists>st'. run sv (map (PortData p) ds) st = Done st'
           \<and> tSockets st' = Some ss
           \<and> (\<forall>s\<in>set ss. written (socks st' s) = written (socks st s) @ ds)
           \<and> (\<forall>s. s \<notin> set ss \<longrightarrow> socks st' s = socks st s)"
  using assms
proof (induction ds arbitrary: st)
  case Nil
  then show ?case by simp
next
  case (Cons d ds)
  obtain st1 where s1: "port_on_data d st = Done st1" "tSockets st1 = Some ss"
      "ports st1 = ports st"
      "socks st1 = (\<lambda>s. if s \<in> set ss
                         then (socks st s)\<lparr>written := written (socks st s) @ [d]\<rparr>
                         else socks st s)"
    using port_on_data_Done [OF Cons.prems(1) Cons.prems(2)] by blast
  have p1: "sp_state (ports st1 p) = POpen" "sp_listeners (ports st1 p)"
    using Cons.prems(3,4) s1(3) by simp_all
  from Cons.IH [OF s1(2) Cons.prems(2) p1]
  obtain st' where r: "run sv (map (PortData p) ds) st1 = Done st'"
      "tSockets st' = Some ss"
      "\<forall>s\<in>set ss. written (socks st' s) = written (socks st1 s) @ ds"
      "\<forall>s. s \<notin> set ss \<longrightarrow> socks st' s = socks st1 s"
    by blast
  have "run sv (map (PortData p) (d # ds)) st = Done st'"
    using Cons.prems(3,4) s1(1) r(1) by simp
  then show ?case using r(2,3,4) s1(4) by simp
qed

theorem serial_data_goes_to_every_client_witness:
  "tSockets relaying = Some [0, 1] \<and> distinct [0::nat, 1]
   \<and> sp_state (ports relaying 0) = POpen \<and> sp_listeners (ports relaying 0)
   \<and> (\<exists>st'. run sv0 (map (PortData 0) [[0x01, 0x02], [0x03]]) relaying = Done st'
         \<and> written (socks st' 0) = [[0x01, 0x02], [0x03]]
         \<and> written (socks st' 1) = [[0x01, 0x02], [0x03]]
         \<and> socks st' 2 = socks relaying 2)"
  using serial_data_goes_to_every_client [of relaying "[0, 1]" 0 sv0 "[[0x01, 0x02], [0x03]]"]
        relaying_refs relaying_objects
  by auto

subsection \<open>Teardown\<close>

lemma quiet_refs:
  "portScan quiet = Some 0" "tSockets quiet = Some []" "tServer quiet = Some 0"
  "sPort quiet = Some 0" "SERIAL_INTERVAL quiet = Some 1"
  "timers quiet = [(0, ScanInterval 5000), (1, ResponseTimeout 500)]"
  "listening (servers quiet 0) = Some 9000" "connections (servers quiet 0) = None"
  "sp_state (ports quiet 0) = POpen" "\<not> isListening quiet"
  by (simp_all add: quiet_def sample_defs method_defs)

lemma clearAll_refs:
  "portScan (clearAll st) = None" "tSockets (clearAll st) = None"
  "tServer (clearAll st) = None" "sPort (clearAll st) = None"
  by (simp_all add: clearAll_def clear_portScan_def clear_tSockets_def clear_tServer_def
      clear_sPort_def clearInterval_def fold_sock_shutdown server_removeAllListeners_def
      server_close_def port_removeAllListeners_def port_close_def port_isOpen_def Let_def
      split: option.splits)

lemma clearAll_noop:
  "portScan st = None \<Longrightarrow> tSockets st = None \<Longrightarrow> tServer st = None \<Longrightarrow> sPort st = None
   \<Longrightarrow> clearAll st = st"
  by (simp add: clearAll_def clear_portScan_def clear_tSockets_def clear_tServer_def
      clear_sPort_def)

lemma clearAll_idem: "clearAll (clearAll st) = clearAll st"
  by (rule clearAll_noop) (rule clearAll_refs)+

lemma clearAll_port:
  "sPort st = Some p
   \<Longrightarrow> \<not> sp_listeners (ports (clearAll st) p)
       \<and> sp_state (ports (clearAll st) p)
           = (if sp_state (ports st p) = POpen then PClosing else sp_state (ports st p))"
  by (auto simp add: clearAll_def clear_portScan_def clear_tSockets_def clear_tServer_def
      clear_sPort_def clearInterval_def fold_sock_shutdown server_removeAllListeners_def
      server_close_def port_removeAllListeners_def port_close_def port_isOpen_def Let_def
      split: option.splits)

text \<open>
  C3 on the code. In the session where both clients have gone and a response timeout is
  pending, \<open>clearAll\<close> deletes \<open>tServer\<close> but leaves the server listening on its port, the
  guard \<open>this.tServer.connections > 0\<close> being false, and leaves the response timeout
  pending; only \<open>destroy\<close> cancels it. A reconfiguration (\<open>configUpdated\<close>) therefore
  keeps both the old listener and the old timeout.
\<close>

theorem clearAll_leaves_listener_and_watchdog:
  "tServer quiet = Some 0 \<and> listening (servers quiet 0) = Some 9000
   \<and> tSockets quiet = Some []
   \<and> timers quiet = [(0, ScanInterval 5000), (1, ResponseTimeout 500)]
   \<and> tServer (clearAll quiet) = None
   \<and> listening (servers (clearAll quiet) 0) = Some 9000
   \<and> timers (clearAll quiet) = [(1, ResponseTimeout 500)]
   \<and> timers (destroy quiet) = []
   \<and> listening (servers (state_of (step sv0 (ConfigUpdated cfg0) quiet)) 0) = Some 9000
   \<and> timers (state_of (step sv0 (ConfigUpdated cfg0) quiet))
       = [(1, ResponseTimeout 500), (2, ScanInterval 5000)]"
  by (simp add: quiet_def sample_defs method_defs)

subsection \<open>Discovery failure\<close>

lemma scanned_refs:
  "foundPorts scanned = [\<lparr>fpath = Some ''none'', fmanufacturer = ''Not configured''\<rparr>,
                         \<lparr>fpath = Some ''COM5'', fmanufacturer = ''FTDI''\<rparr>]"
  "\<not> scanning scanned" "sPort scanned = None" "timers scanned = [(0, ScanInterval 5000)]"
  "host scanned = [SetActionDefinitions, SetVariableDefinitions, SetVariableValues ''Not connected'']"
  "lastStatus scanned = None" "startedAt scanned = Some 0" "clock scanned = 0"
  "\<not> isListening scanned" "LOG_DELAY scanned = 10000"
  by (simp_all add: scanned_def sample_defs method_defs)

lemma scanning_doUpdateStatus: "scanning (doUpdateStatus sv e st) = scanning st"
  by (simp add: doUpdateStatus_def split: option.splits prod.splits)

lemma scanning_init_serial: "scanning (state_of (init_serial sv st)) = scanning st"
  by (simp add: init_serial_def scanning_doUpdateStatus Let_def split: option.splits)

lemma scan_tick_starts_scan:
  assumes "map_of (timers st) h = Some (ScanInterval n)"
    and "sPort st = None \<or> (\<exists>p. sPort st = Some p \<and> sp_state (ports st p) \<noteq> POpen)"
  shows "scanning (state_of (step sv (TimerFires h) st))"
  using assms
  by (auto simp add: scanForPorts_def findPorts_def scanning_init_serial scanning_doUpdateStatus
      port_isOpen_def Let_def)

text \<open>
  C4, as amended. \<open>findPorts\<close> empties \<open>foundPorts\<close> when it starts a scan, before the
  enumeration is called. The rejection callback leaves \<open>foundPorts\<close> as it finds it
  (so empty), logs the failure at debug level and emits no status, and clears
  \<open>scanning\<close>; the next tick of the scan interval then starts a new scan, as long as the
  serial port is not open.
\<close>

theorem discovery_failure_leaves_found_empty:
  "(\<not> scanning st \<longrightarrow> foundPorts (findPorts st) = [] \<and> scanning (findPorts st))
   \<and> foundPorts (findPorts_rejected err st) = foundPorts st
   \<and> host (findPorts_rejected err st) = host st @ [Log ''debug'' (''SerialPort.list: '' @ err)]
   \<and> lastStatus (findPorts_rejected err st) = lastStatus st
   \<and> \<not> scanning (findPorts_rejected err st)
   \<and> (\<forall>h n. map_of (timers st) h = Some (ScanInterval n) \<longrightarrow>
         (sPort st = None \<or> (\<exists>p. sPort st = Some p \<and> sp_state (ports st p) \<noteq> POpen)) \<longrightarrow>
         scanning (state_of (step sv (TimerFires h) (findPorts_rejected err st))))"
proof -
  have "scanning (state_of (step sv (TimerFires h) (findPorts_rejected err st)))"
    if "map_of (timers st) h = Some (ScanInterval k)"
      and "sPort st = None \<or> (\<exists>p. sPort st = Some p \<and> sp_state (ports st p) \<noteq> POpen)"
    for h k
    using that scan_tick_starts_scan [of "findPorts_rejected err st" h k sv]
    by (simp add: findPorts_rejected_def log_def)
  then have retry: "\<forall>h n. map_of (timers st) h = Some (ScanInterval n) \<longrightarrow>
         (sPort st = None \<or> (\<exists>p. sPort st = Some p \<and> sp_state (ports st p) \<noteq> POpen)) \<longrightarrow>
         scanning (state_of (step sv (TimerFires h) (findPorts_rejected err st)))"
    by blast
  have "foundPorts (findPorts_rejected err st) = foundPorts st"
    "host (findPorts_rejected err st) = host st @ [Log ''debug'' (''SerialPort.list: '' @ err)]"
    "lastStatus (findPorts_rejected err st) = lastStatus st"
    "\<not> scanning (findPorts_rejected err st)"
    "\<not> scanning st \<longrightarrow> foundPorts (findPorts st) = [] \<and> scanning (findPorts st)"
    by (simp_all add: findPorts_def findPorts_rejected_def log_def)
  with retry show ?thesis by blast
qed

theorem discovery_failure_leaves_found_empty_witness:
  "\<not> scanning scanned \<and> map_of (timers scanned) 0 = Some (ScanInterval 5000)
   \<and> sPort scanned = None
   \<and> foundPorts (findPorts scanned) = [] \<and> scanning (findPorts scanned)
   \<and> foundPorts (findPorts_rejected ''Error: access denied'' (findPorts scanned)) = []
   \<and> scanning (state_of (step sv0 (TimerFires 0) (findPorts_rejected ''Error: access denied'' scanned)))"
proof -
  have "sPort (findPorts scanned) = None" "timers (findPorts scanned) = timers scanned"
    using scanned_refs by (simp_all add: findPorts_def)
  then show ?thesis
    using discovery_failure_leaves_found_empty [of scanned "''Error: access denied''" sv0]
          discovery_failure_leaves_found_empty [of "findPorts scanned" "''Error: access denied''" sv0]
          scanned_refs
    by simp
qed

text \<open>
  C4 as stated fails: the port found by the first enumeration is gone from
  \<open>foundPorts\<close> after the next tick's enumeration fails.
\<close>

theorem discovery_failure_loses_found_ports:
  "foundPorts scanned = [\<lparr>fpath = Some ''none'', fmanufacturer = ''Not configured''\<rparr>,
                         \<lparr>fpath = Some ''COM5'', fmanufacturer = ''FTDI''\<rparr>]
   \<and> foundPorts (state_of (run sv0 [TimerFires 0, ListRejected ''Error: access denied''] scanned)) = []"
  by (simp add: scanned_def sample_defs method_defs)

subsection \<open>The status monitor\<close>






































subsection \<open>The response watchdog\<close>

lemma sock_on_data_arms:
  assumes "sPort st = Some p" and "config st = Some c" and "response c"
  shows "timers (state_of (sock_on_data d st))
           = timers st @ [(nextTimer st, ResponseTimeout (maxresponse c))]"
    and "SERIAL_INTERVAL (state_of (sock_on_data d st)) = Some (nextTimer st)"
  using assms by (simp_all add: sock_on_data_def log_def port_write_def setTimer_def Let_def)

text \<open>
  C6 on the code. Two client writes in a row leave two response timeouts pending: the
  second \<open>setTimeout\<close> does not cancel the first, whose handle is overwritten. The serial
  data that follows cancels only the later one; the earlier one then fires and the error
  message is broadcast, after the response \<open>0x06\<close> was received and forwarded.
\<close>

theorem rearming_stacks_response_timeouts:
  "timers (state_of (run sv0 [SockData 0 [0x01], SockData 0 [0x02]] relaying))
     = [(0, ScanInterval 5000), (1, ResponseTimeout 500), (2, ResponseTimeout 500)]
   \<and> timers (state_of (run sv0 [SockData 0 [0x01], SockData 0 [0x02], PortData 0 [0x06]] relaying))
     = [(0, ScanInterval 5000), (1, ResponseTimeout 500)]
   \<and> written (socks (state_of (run sv0 [SockData 0 [0x01], SockData 0 [0x02], PortData 0 [0x06],
                                        TimerFires 1] relaying)) 1)
     = [[0x06], [0x45, 0x52, 0x52]]"
  by (simp add: sample_defs method_defs)

lemma sendError_Done:
  assumes "config st = Some c" and "tSockets st = Some ss" and "distinct ss"
  shows "\<exists>st'. sendError st = Done st'
     \<and> socks st' = (\<lambda>s. if s \<in> set ss
                          then (socks st s)\<lparr>written := written (socks st s) @ [errormessage c]\<rparr>
                          else socks st s)
     \<and> host st' = host st @ [UpdateStatus None None,
          Log ''error'' (''Error: No response received via Serial connection in the max allotted time of ''
                          @ show_nat (maxresponse c) @ ''ms'')]
     \<and> sPort st' = sPort st \<and> ports st' = ports st \<and> tSockets st' = tSockets st
     \<and> tServer st' = tServer st \<and> servers st' = servers st
     \<and> isListening st' = isListening st"
  using assms
  by (simp add: sendError_def updateStatus_def InstanceStatus_Error_def log_def fold_sock_write
      clearInterval_def Let_def
      count_list_distinct fun_eq_iff split: option.splits)

lemma response_timeout_step:
  assumes "map_of (timers st) h = Some (ResponseTimeout ms)"
    and "config st = Some c" and "tSockets st = Some ss" and "distinct ss"
  shows "\<exists>st'. step sv (TimerFires h) st = Done st'
     \<and> (\<forall>s\<in>set ss. written (socks st' s) = written (socks st s) @ [errormessage c])
     \<and> host st' = host st @ [UpdateStatus None None,
          Log ''error'' (''Error: No response received via Serial connection in the max allotted time of ''
                          @ show_nat (maxresponse c) @ ''ms'')]
     \<and> sPort st' = sPort st \<and> ports st' = ports st \<and> tSockets st' = tSockets st
     \<and> tServer st' = tServer st \<and> servers st' = servers st
     \<and> isListening st' = isListening st
     \<and> (\<forall>s. ended (socks st' s) = ended (socks st s)
              \<and> listeners (socks st' s) = listeners (socks st s))"
proof -
  let ?st0 = "st\<lparr>timers := filter (\<lambda>e. fst e \<noteq> h) (timers st)\<rparr>"
  have "config ?st0 = Some c" "tSockets ?st0 = Some ss"
    using assms by simp_all
  from sendError_Done [OF this assms(4)]
  obtain st' where r: "sendError ?st0 = Done st'"
     "socks st' = (\<lambda>s. if s \<in> set ss
                          then (socks ?st0 s)\<lparr>written := written (socks ?st0 s) @ [errormessage c]\<rparr>
                          else socks ?st0 s)"
     "host st' = host ?st0 @ [UpdateStatus None None,
          Log ''error'' (''Error: No response received via Serial connection in the max allotted time of ''
                          @ show_nat (maxresponse c) @ ''ms'')]"
     "sPort st' = sPort ?st0" "ports st' = ports ?st0" "tSockets st' = tSockets ?st0"
     "tServer st' = tServer ?st0" "servers st' = servers ?st0"
     "isListening st' = isListening ?st0"
    by blast
  have "step sv (TimerFires h) st = Done st'"
    using assms(1) r(1) by simp
  then show ?thesis
    using r(2-9) by simp
qed

text \<open>
  C7 on the code. In the session with the response timeout armed, the timeout fires:
  the configured error message is written to both clients and the violation is logged at
  error level; the serial port stays open and the active list is unchanged. The status
  call, however, is \<open>updateStatus(undefined)\<close>, \<open>InstanceStatus.Error\<close> not being a member of
  the enumeration: no error status is raised.
\<close>

theorem response_timeout_raises_no_status:
  "map_of (timers armed) 1 = Some (ResponseTimeout 500) \<and> tSockets armed = Some [0, 1]
   \<and> sp_state (ports armed 0) = POpen
   \<and> (\<exists>st'. step sv0 (TimerFires 1) armed = Done st'
         \<and> host st' = host armed @ [UpdateStatus None None,
              Log ''error'' ''Error: No response received via Serial connection in the max allotted time of 500ms'']
         \<and> written (socks st' 0) = [[0x45, 0x52, 0x52]]
         \<and> written (socks st' 1) = [[0x45, 0x52, 0x52]]
         \<and> sp_state (ports st' 0) = POpen \<and> tSockets st' = Some [0, 1])"
proof -
  have "show_nat 500 = ''500''"
    by (simp add: show_nat.simps digit_def)
  then show ?thesis
    using response_timeout_step [of armed 1 500 cfg0 "[0, 1]" sv0] armed_refs
    by (auto simp add: cfg0_def)
qed

subsection \<open>The startup grace window\<close>

text \<open>
  C8, as amended. With the server not listening and no error passed, \<open>doUpdateStatus\<close>
  emits nothing exactly when the clock is still inside the grace window
  (\<open>startedAt + LOG_DELAY > now\<close>), whatever \<open>foundPorts\<close> holds; outside the window one
  of the three remaining rules gives the status.
\<close>

theorem grace_window_suppresses_status:
  assumes "\<not> isListening st"
  shows "((status_rule None st = None)
            = (\<exists>t. startedAt st = Some t \<and> clock st < t + LOG_DELAY st))
     \<and> (status_rule None st = None \<longrightarrow> doUpdateStatus sv None st = st)
     \<and> (status_rule None st \<noteq> None \<longrightarrow>
          status_rule None st
            = Some (if foundPorts st = []
                    then (''error'', ''No serial ports detected'', ConnectionFailure)
                    else if sPort st \<noteq> None \<and> sPortPath st \<noteq> ''none''
                    then (''info'', ''Connecting to '' @ sPortPath st, Connecting)
                    else (''error'', ''No serial port configured'', BadConfig)))"
  using assms
  by (auto simp add: status_rule_def doUpdateStatus_def InstanceStatus_Error_def
      split: option.splits)

theorem grace_window_suppresses_status_witness:
  "\<not> isListening scanned \<and> startedAt scanned = Some 0 \<and> clock scanned = 0
   \<and> LOG_DELAY scanned = 10000
   \<and> status_rule None scanned = None
   \<and> doUpdateStatus sv0 None scanned = scanned
   \<and> status_rule None (scanned\<lparr>clock := 10000\<rparr>)
       = Some (''error'', ''No serial port configured'', BadConfig)"
  using grace_window_suppresses_status [of scanned sv0]
        grace_window_suppresses_status [of "scanned\<lparr>clock := 10000\<rparr>" sv0]
        scanned_refs
  by simp

text \<open>
  C8 as stated fails: discovery has produced a result (\<open>foundPorts\<close> holds the port), the
  clock is inside the grace window, and the status is suppressed all the same.
\<close>

theorem grace_window_suppresses_after_discovery:
  "foundPorts scanned = [\<lparr>fpath = Some ''none'', fmanufacturer = ''Not configured''\<rparr>,
                         \<lparr>fpath = Some ''COM5'', fmanufacturer = ''FTDI''\<rparr>]
   \<and> \<not> isListening scanned \<and> startedAt scanned = Some 0 \<and> clock scanned = 0
   \<and> status_rule None scanned = None
   \<and> host (doUpdateStatus sv0 None scanned) = host scanned"
  by (simp add: scanned_def sample_defs method_defs)

subsection \<open>Serial port close\<close>

lemma doUpdateStatus_keeps:
  "socks (doUpdateStatus sv err st) = socks st"
  "servers (doUpdateStatus sv err st) = servers st"
  "ports (doUpdateStatus sv err st) = ports st"
  "tSockets (doUpdateStatus sv err st) = tSockets st"
  "tServer (doUpdateStatus sv err st) = tServer st"
  "sPort (doUpdateStatus sv err st) = sPort st"
  "isListening (doUpdateStatus sv err st) = isListening st"
  "timers (doUpdateStatus sv err st) = timers st"
  by (simp_all add: doUpdateStatus_def split: option.splits prod.splits)

lemma port_on_close_cascade:
  assumes "tSockets st = Some ss" and "tServer st = Some t" and "disconnected e"
  shows "\<exists>st'. port_on_close sv (Some e) st = Done st'
           \<and> socks st' = (\<lambda>s. if s \<in> set ss then (socks st s)\<lparr>ended := True\<rparr> else socks st s)
           \<and> servers st' = (servers st)(t := (servers st t)\<lparr>listening := None\<rparr>)
           \<and> \<not> isListening st' \<and> ports st' = ports st"
  using assms
  by (simp add: port_on_close_def Let_def doUpdateStatus_keeps fold_sock_end server_close_def
      cong: if_cong)

text \<open>
  C9. When the open serial port closes with an error marked \<open>disconnected\<close>, the callback
  returns normally, \<open>end()\<close> has been called on every socket of the active list, the
  server is closed and \<open>isListening\<close> is false. A close event whose error is not marked
  \<open>disconnected\<close> only updates the status, and one with no error object throws before any
  of this: sockets, server and \<open>isListening\<close> stay as they were. A close requested by
  \<open>clearAll\<close> reaches no callback at all, the listeners having been removed first.
\<close>

theorem hardware_disconnect_cascades:
  assumes "tSockets st = Some ss" and "tServer st = Some t" and "sPort st = Some p"
    and "sp_state (ports st p) = POpen" and "sp_listeners (ports st p)"
  shows "(disconnected e \<longrightarrow>
           (\<exists>st'. step sv (PortClose p (Some e)) st = Done st'
              \<and> (\<forall>s\<in>set ss. ended (socks st' s))
              \<and> listening (servers st' t) = None
              \<and> \<not> isListening st'))
     \<and> (\<not> disconnected e \<longrightarrow>
           (\<exists>st'. step sv (PortClose p (Some e)) st = Done st'
              \<and> socks st' = socks st \<and> servers st' = servers st
              \<and> isListening st' = isListening st))
     \<and> (\<exists>st'. step sv (PortClose p None) st = Threw st'
              \<and> socks st' = socks st \<and> servers st' = servers st
              \<and> isListening st' = isListening st)
     \<and> (\<exists>st'. step sv (PortClose p err) (clearAll st) = Done st'
              \<and> socks st' = socks (clearAll st) \<and> servers st' = servers (clearAll st)
              \<and> isListening st' = isListening (clearAll st)
              \<and> host st' = host (clearAll st))"
proof -
  let ?st1 = "st\<lparr>ports := (ports st)(p := (ports st p)\<lparr>sp_state := PClosed\<rparr>)\<rparr>"
  have s: "step sv (PortClose p x) st = port_on_close sv x ?st1" for x
    using assms(4,5) by simp
  have c1: "\<exists>st'. step sv (PortClose p (Some e)) st = Done st'
              \<and> (\<forall>s\<in>set ss. ended (socks st' s))
              \<and> listening (servers st' t) = None
              \<and> \<not> isListening st'" if "disconnected e"
  proof -
    have "tSockets ?st1 = Some ss" "tServer ?st1 = Some t"
      using assms(1,2) by simp_all
    from port_on_close_cascade [OF this that, of sv]
    show ?thesis unfolding s by auto
  qed
  have c2: "\<exists>st'. step sv (PortClose p (Some e)) st = Done st'
              \<and> socks st' = socks st \<and> servers st' = servers st
              \<and> isListening st' = isListening st" if "\<not> disconnected e"
    unfolding s using that by (simp add: port_on_close_def Let_def doUpdateStatus_keeps)
  have c3: "\<exists>st'. step sv (PortClose p None) st = Threw st'
              \<and> socks st' = socks st \<and> servers st' = servers st
              \<and> isListening st' = isListening st"
    unfolding s by (simp add: port_on_close_def Let_def doUpdateStatus_keeps)
  have "\<not> sp_listeners (ports (clearAll st) p)"
    using clearAll_port [OF assms(3)] by simp
  then have c4: "\<exists>st'. step sv (PortClose p err) (clearAll st) = Done st'
              \<and> socks st' = socks (clearAll st) \<and> servers st' = servers (clearAll st)
              \<and> isListening st' = isListening (clearAll st)
              \<and> host st' = host (clearAll st)"
    by (simp add: Let_def)
  show ?thesis using c1 c2 c3 c4 by blast
qed

theorem hardware_disconnect_cascades_witness:
  "tSockets relaying = Some [0, 1] \<and> tServer relaying = Some 0 \<and> sPort relaying = Some 0
   \<and> sp_state (ports relaying 0) = POpen \<and> sp_listeners (ports relaying 0)
   \<and> listening (servers relaying 0) = Some 9000 \<and> isListening relaying
   \<and> \<not> ended (socks relaying 0) \<and> \<not> ended (socks relaying 1)
   \<and> (\<exists>st'. step sv0 (PortClose 0 (Some \<lparr>message = ''unplugged'', disconnected = True\<rparr>)) relaying
               = Done st'
         \<and> ended (socks st' 0) \<and> ended (socks st' 1)
         \<and> listening (servers st' 0) = None \<and> \<not> isListening st')
   \<and> (\<exists>st'. step sv0 (PortClose 0 (Some \<lparr>message = ''closed'', disconnected = False\<rparr>)) relaying
               = Done st'
         \<and> \<not> ended (socks st' 0) \<and> \<not> ended (socks st' 1)
         \<and> listening (servers st' 0) = Some 9000 \<and> isListening st')"
  using hardware_disconnect_cascades
          [of relaying "[0, 1]" 0 0 "\<lparr>message = ''unplugged'', disconnected = True\<rparr>" sv0 None]
        hardware_disconnect_cascades
          [of relaying "[0, 1]" 0 0 "\<lparr>message = ''closed'', disconnected = False\<rparr>" sv0 None]
        relaying_refs relaying_objects
  by auto

subsection \<open>The last client leaves\<close>

lemma one_client_refs:
  "tSockets one_client = Some [1]" "listeners (socks one_client 1)"
  "isListening one_client" "tServer one_client = Some 0"
  "listening (servers one_client 0) = Some 9000" "IPPort one_client = 9000"
  "status_rule None one_client = Some (''info'', ''Listening on TCP port 9000'', Ok)"
  by (simp_all add: one_client_def sample_defs method_defs show_nat.simps)

text \<open>
  C10. When the close event of the only socket of the active list is handled, the list
  becomes empty and \<open>isListening\<close> false, while \<open>tServer\<close> and the server object are
  untouched: a server that was listening still is. From then on \<open>doUpdateStatus\<close> does
  not take its first rule: whatever the error argument, the status it computes, if any,
  is not \<open>Ok\<close>, and with no error argument it is what the rules below the second give.
\<close>

theorem last_client_close_clears_isListening:
  assumes "tSockets st = Some [s]" and "listeners (socks st s)"
  shows "\<exists>st'. step sv (SockClose s) st = Done st'
     \<and> tSockets st' = Some [] \<and> \<not> isListening st'
     \<and> tServer st' = tServer st \<and> servers st' = servers st
     \<and> (\<forall>err l m c. status_rule err st' = Some (l, m, c) \<longrightarrow> c \<noteq> Ok)
     \<and> status_rule None st'
         = (if (case startedAt st of None \<Rightarrow> False | Some t \<Rightarrow> clock st < t + LOG_DELAY st)
            then None
            else Some (if foundPorts st = []
                       then (''error'', ''No serial ports detected'', ConnectionFailure)
                       else if sPort st \<noteq> None \<and> sPortPath st \<noteq> ''none''
                       then (''info'', ''Connecting to '' @ sPortPath st, Connecting)
                       else (''error'', ''No serial port configured'', BadConfig)))"
  using assms
  by (auto simp add: sock_on_close_def updateVariables_def indexOf_def splice1_def Let_def
      status_rule_def InstanceStatus_Error_def split: option.splits if_splits)

theorem last_client_close_clears_isListening_witness:
  "tSockets one_client = Some [1] \<and> listeners (socks one_client 1) \<and> isListening one_client
   \<and> listening (servers one_client 0) = Some 9000
   \<and> status_rule None one_client = Some (''info'', ''Listening on TCP port 9000'', Ok)
   \<and> (\<exists>st'. step sv0 (SockClose 1) one_client = Done st'
         \<and> tSockets st' = Some [] \<and> \<not> isListening st'
         \<and> listening (servers st' 0) = Some 9000
         \<and> status_rule None st' = None)"
proof -
  have "startedAt one_client = Some 0" "clock one_client = 5000" "LOG_DELAY one_client = 10000"
    by (simp_all add: one_client_def sample_defs method_defs)
  then show ?thesis
    using last_client_close_clears_isListening [of one_client 1 sv0] one_client_refs
    by auto
qed

subsection \<open>The active list holds each socket once\<close>

lemma socks_ok_cong:
  "tSockets st' = tSockets st \<Longrightarrow> nextSock st' = nextSock st \<Longrightarrow> socks_ok st' = socks_ok st"
  by (simp add: socks_ok_def)

lemma socks_ok_None: "tSockets st = None \<Longrightarrow> socks_ok st"
  by (simp add: socks_ok_def)

lemma keeps_doUpdateStatus:
  "tSockets (doUpdateStatus sv err st) = tSockets st"
  "nextSock (doUpdateStatus sv err st) = nextSock st"
  by (simp_all add: doUpdateStatus_def split: option.splits prod.splits)

lemma socks_ok_doUpdateStatus: "socks_ok (doUpdateStatus sv err st) = socks_ok st"
  by (rule socks_ok_cong) (rule keeps_doUpdateStatus)+

lemma socks_ok_update:
  "socks_ok (LOG_DELAY_update f0 st) = socks_ok st"
  "socks_ok (foundPorts_update f1 st) = socks_ok st"
  "socks_ok (sPortPath_update f3 st) = socks_ok st"
  "socks_ok (isOpen_update f4 st) = socks_ok st"
  "socks_ok (IPPort_update f5 st) = socks_ok st"
  "socks_ok (config_update f6 st) = socks_ok st"
  "socks_ok (portScan_update f7 st) = socks_ok st"
  "socks_ok (tServer_update f8 st) = socks_ok st"
  "socks_ok (sPort_update f9 st) = socks_ok st"
  "socks_ok (SERIAL_INTERVAL_update f10 st) = socks_ok st"
  "socks_ok (isListening_update f11 st) = socks_ok st"
  "socks_ok (startedAt_update f12 st) = socks_ok st"
  "socks_ok (lastStatus_update g0 st) = socks_ok st"
  "socks_ok (scanning_update f13 st) = socks_ok st"
  "socks_ok (clock_update f14 st) = socks_ok st"
  "socks_ok (timers_update f15 st) = socks_ok st"
  "socks_ok (nextTimer_update f16 st) = socks_ok st"
  "socks_ok (socks_update f17 st) = socks_ok st"
  "socks_ok (servers_update f19 st) = socks_ok st"
  "socks_ok (nextServer_update f20 st) = socks_ok st"
  "socks_ok (ports_update f21 st) = socks_ok st"
  "socks_ok (nextPort_update f22 st) = socks_ok st"
  "socks_ok (host_update g1 st) = socks_ok st"
  by (simp_all add: socks_ok_def)

lemma socks_ok_prim:
  "socks_ok (log l m st) = socks_ok st"
  "socks_ok (updateStatus s mo st) = socks_ok st"
  "socks_ok (clearInterval h st) = socks_ok st"
  "socks_ok (setTimer t st) = socks_ok st"
  "socks_ok (sock_end i st) = socks_ok st"
  "socks_ok (sock_removeAllListeners i st) = socks_ok st"
  "socks_ok (sock_write d i st) = socks_ok st"
  "socks_ok (server_close i st) = socks_ok st"
  "socks_ok (server_removeAllListeners i st) = socks_ok st"
  "socks_ok (port_close i st) = socks_ok st"
  "socks_ok (port_removeAllListeners i st) = socks_ok st"
  "socks_ok (port_write d i st) = socks_ok st"
  "socks_ok (init_actions st) = socks_ok st"
  "socks_ok (init_variables st) = socks_ok st"
  "socks_ok (findPorts st) = socks_ok st"
  "socks_ok (findPorts_rejected e st) = socks_ok st"
  by (rule socks_ok_cong;
      simp add: log_def updateStatus_def clearInterval_def setTimer_def sock_end_def
        sock_removeAllListeners_def sock_write_def server_close_def
        server_removeAllListeners_def port_close_def port_removeAllListeners_def
        port_write_def init_actions_def init_variables_def findPorts_def
        findPorts_rejected_def split: option.splits)+

lemma socks_ok_folds:
  "socks_ok (fold (sock_write d) ss st) = socks_ok st"
  "socks_ok (fold sock_end ss st) = socks_ok st"
  by (simp_all add: fold_sock_write fold_sock_end socks_ok_update)

lemmas socks_ok_simps = socks_ok_update socks_ok_prim socks_ok_folds socks_ok_doUpdateStatus

lemma socks_ok_updateVariables: "socks_ok (state_of (updateVariables st)) = socks_ok st"
  by (rule socks_ok_cong; simp add: updateVariables_def split: option.splits)+

lemma socks_ok_clearAll: "socks_ok (clearAll st)"
  by (rule socks_ok_None) (rule clearAll_refs)

lemma socks_ok_and_then:
  assumes "socks_ok (state_of r)"
    and "\<And>st. socks_ok st \<Longrightarrow> socks_ok (state_of (f st))"
  shows "socks_ok (state_of (and_then r f))"
  using assms by (cases r) simp_all

lemma socks_ok_init_serial: "socks_ok (state_of (init_serial sv st)) = socks_ok st"
  by (simp add: init_serial_def Let_def socks_ok_simps split: option.splits)

lemma socks_ok_scanForPorts: "socks_ok (state_of (scanForPorts sv st)) = socks_ok st"
  by (simp add: scanForPorts_def Let_def socks_ok_simps socks_ok_init_serial)

lemma socks_ok_empty: "socks_ok (tSockets_update (\<lambda>_. Some []) st)"
  by (simp add: socks_ok_def)

lemma socks_ok_applyConfig: "socks_ok (state_of (applyConfig sv c st))"
  unfolding applyConfig_def Let_def
  by (rule socks_ok_and_then)
     (simp_all add: socks_ok_simps socks_ok_scanForPorts socks_ok_updateVariables socks_ok_empty)

lemma socks_ok_select_port: "socks_ok (state_of (select_port sv w c i st))"
  by (simp add: select_port_def Let_def socks_ok_applyConfig)

lemma socks_ok_caught:
  "socks_ok (state_of r)
   \<Longrightarrow> socks_ok (case r of Done st' \<Rightarrow> st' | Threw st' \<Rightarrow> log l m st')"
  by (cases r) (simp_all add: socks_ok_prim)

lemma socks_ok_actions:
  "socks_ok st \<Longrightarrow> socks_ok (previousSPort sv st)"
  "socks_ok st \<Longrightarrow> socks_ok (nextSPort sv st)"
  by (simp_all add: previousSPort_def nextSPort_def Let_def socks_ok_simps socks_ok_caught
      socks_ok_select_port split: option.splits)

lemma socks_ok_port_on_close:
  "socks_ok (state_of (port_on_close sv err st)) = socks_ok st"
  by (simp add: port_on_close_def Let_def socks_ok_simps keeps_doUpdateStatus
      split: option.splits)

lemma socks_ok_port_on_data: "socks_ok (state_of (port_on_data d st)) = socks_ok st"
  by (simp add: port_on_data_def Let_def socks_ok_simps split: option.splits)

lemma socks_ok_sock_on_data: "socks_ok (state_of (sock_on_data d st)) = socks_ok st"
  by (simp add: sock_on_data_def Let_def socks_ok_simps split: option.splits)

lemma socks_ok_sendError: "socks_ok (state_of (sendError st)) = socks_ok st"
  by (simp add: sendError_def Let_def socks_ok_simps split: option.splits)

lemma distinct_splice1: "distinct xs \<Longrightarrow> distinct (splice1 i xs)"
  by (simp add: splice1_def Let_def set_take_disj_set_drop_if_distinct)

lemma set_splice1: "set (splice1 i xs) \<subseteq> set xs"
  by (auto simp add: splice1_def Let_def dest: in_set_takeD in_set_dropD)

lemma socks_ok_sock_on_close:
  "socks_ok st \<Longrightarrow> socks_ok (state_of (sock_on_close s st))"
  using set_splice1 [of "indexOf (the (tSockets st)) s" "the (tSockets st)"]
  by (auto simp add: sock_on_close_def updateVariables_def Let_def socks_ok_def
      distinct_splice1 list_all_iff split: option.splits)

lemma socks_ok_connection:
  "socks_ok st \<Longrightarrow> socks_ok (state_of (step sv (Connection t a p) st))"
  by (auto simp add: on_connection_def updateVariables_def Let_def socks_ok_def list_all_iff
      split: option.splits intro: less_SucI)

lemma socks_ok_step:
  assumes "socks_ok st"
  shows "socks_ok (state_of (step sv e st))"
proof (cases e)
  case (TimerFires h)
  then show ?thesis
    using assms
    by (simp add: socks_ok_scanForPorts socks_ok_sendError socks_ok_simps
        split: option.splits timer.splits)
next
  case (Connection t a p)
  then show ?thesis
    using socks_ok_connection [OF assms] by simp
next
  case (ListResolved ps)
  then show ?thesis
    using assms by (simp add: findPorts_resolved_def Let_def socks_ok_simps)
next
  case Destroy
  then show ?thesis
    by (simp add: destroy_def Let_def socks_ok_simps socks_ok_clearAll)
qed (simp_all add: assms Let_def socks_ok_simps socks_ok_applyConfig socks_ok_actions
      init_tcp_def socks_ok_port_on_close socks_ok_port_on_data socks_ok_sock_on_close
      socks_ok_sock_on_data)

text \<open>
  In every execution from the constructor's state the active list, while it exists,
  holds each socket once: the hypothesis of the two broadcast properties.
\<close>

lemma active_list_distinct:
  "tSockets (state_of (run sv es (constructor now))) = Some ss \<Longrightarrow> distinct ss"
proof -
  have "socks_ok st \<Longrightarrow> socks_ok (state_of (run sv es st))" for st
  proof (induction es arbitrary: st)
    case Nil
    then show ?case by simp
  next
    case (Cons e es)
    show ?case
      using socks_ok_step [OF Cons.prems, of sv e] Cons.IH
      by (cases "step sv e st") simp_all
  qed
  moreover have "socks_ok (constructor now)"
    by (simp add: socks_ok_def constructor_def)
  ultimately have "socks_ok (state_of (run sv es (constructor now)))" .
  then show "tSockets (state_of (run sv es (constructor now))) = Some ss \<Longrightarrow> distinct ss"
    by (simp add: socks_ok_def)
qed

end
